theory Spec2Isabelle
  imports Main "HOL-Library.Sublist"
begin

section \<open>Text: Python strings, \<open>str.lower\<close>, decimal printing, the substring test\<close>

text \<open>
  A Python \<open>str\<close> is modelled as a \<open>string\<close> whose characters are read as the code
  points U+0000 .. U+00FF (Latin-1). That range holds the Spanish text of the directory
  and every configured keyword (\<open>CHR 0xE9\<close> is e-acute, \<open>CHR 0xE1\<close> a-acute,
  \<open>CHR 0xF3\<close> o-acute). On it \<open>str.isupper\<close> of one character is true for A..Z,
  U+00C0..U+00D6 and U+00D8..U+00DE, and \<open>str.lower\<close> moves exactly those 32 places up.
\<close>

definition isupper :: "char \<Rightarrow> bool" where
  "isupper c =
     (let n = (of_char c :: nat)
      in (65 \<le> n \<and> n \<le> 90) \<or> (192 \<le> n \<and> n \<le> 214) \<or> (216 \<le> n \<and> n \<le> 222))"

definition lower_char :: "char \<Rightarrow> char" where
  "lower_char c = (if isupper c then char_of ((of_char c :: nat) + 32) else c)"

definition lower :: "string \<Rightarrow> string" where
  "lower s = map lower_char s"

text \<open>\<open>str(n)\<close> for a non-negative integer, as the f-string of the URL prints it.\<close>

fun str_nat :: "nat \<Rightarrow> string" where
  "str_nat n =
     (if n < 10 then [char_of (48 + n)]
      else str_nat (n div 10) @ [char_of (48 + n mod 10)])"

declare str_nat.simps [simp del]

text \<open>\<open>s.zfill(2)\<close>: pad with zeros on the left up to width 2.\<close>

definition zfill2 :: "string \<Rightarrow> string" where
  "zfill2 s = replicate (2 - length s) (CHR ''0'') @ s"

text \<open>\<open>palabra in x\<close> on two strings: \<open>palabra\<close> occurs in \<open>x\<close> as a contiguous run.\<close>

fun str_in :: "string \<Rightarrow> string \<Rightarrow> bool" where
  "str_in palabra [] = (palabra = [])"
| "str_in palabra (c # cs) = (prefix palabra (c # cs) \<or> str_in palabra cs)"

section \<open>Configuration\<close>

definition TOKEN :: string where
  "TOKEN = ''b0bad450-5fb1-4efb-a4cd-e2851afe8e85''"

definition BLOQUE :: nat where
  "BLOQUE = 1000"

definition TIEMPO_ESPERA :: nat where
  "TIEMPO_ESPERA = 2"

definition MAX_INTENTOS_VACIOS :: nat where
  "MAX_INTENTOS_VACIOS = 2"

definition ESTRATOS :: "string list" where
  "ESTRATOS = [''6'', ''7'']"

definition PALABRAS_CLAVE :: "string list" where
  "PALABRAS_CLAVE =
     [''farmac'' @ [CHR 0xE9] @ ''utica'',
      ''laboratorio'',
      ''manufactura'',
      ''f'' @ [CHR 0xE1] @ ''brica'',
      ''transformaci'' @ [CHR 0xF3] @ ''n'']"

definition ENTIDADES :: "string list" where
  "ENTIDADES = map (\<lambda>i. zfill2 (str_nat i)) [1..<33]"

definition ARCHIVO_CSV :: string where
  "ARCHIVO_CSV = ''pymes_giros_estrategicos.csv''"

definition ARCHIVO_XLSX :: string where
  "ARCHIVO_XLSX = ''pymes_giros_estrategicos.xlsx''"

definition ARCHIVO_JSON :: string where
  "ARCHIVO_JSON = ''pymes_giros_estrategicos.json''"

section \<open>Records, the remote source, effects\<close>

text \<open>
  One value of a JSON object of the directory: a string, or \<open>NaN\<close> for a value that is
  missing (a JSON null, and in a table the cell of a key the object does not have); the
  directory delivers every field it has as a string. A JSON object is an association
  list with its keys in arrival order, pairwise different as the keys of a Python dict are.
\<close>

datatype cell = Str string | NaN

type_synonym registro = "(string \<times> cell) list"

text \<open>
  What \<open>requests.get\<close>, \<open>raise_for_status\<close> and \<open>r.json()\<close> give for one URL: an
  exception with its message (transport error, non-2xx status, undecodable body), or the
  decoded array of objects. A simulated source is a function from URLs.
\<close>

datatype respuesta = Falla string | Datos "registro list"

text \<open>
  The effects a run leaves behind, in the order they happen: a request for a URL, a line
  printed, a pause, a writer called on a file.
\<close>

datatype evento =
    Peticion string
  | Imprime string
  | Espera nat
  | Escribe string

section \<open>Query builder\<close>

definition construir_url :: "string \<Rightarrow> string \<Rightarrow> string \<Rightarrow> nat \<Rightarrow> nat \<Rightarrow> string" where
  "construir_url entidad municipio estrato inicio fin =
     ''https://www.inegi.org.mx/app/api/denue/v1/consulta/BuscarAreaActEstr/''
     @ entidad @ ''/'' @ municipio @ ''/0/0/0/0/0/0/0/0/''
     @ str_nat inicio @ ''/'' @ str_nat fin @ ''/0/'' @ estrato @ ''/'' @ TOKEN"

section \<open>Paginator\<close>

text \<open>
  The local variables of \<open>obtener_datos\<close> (\<open>total_acc\<close> is the list \<open>total\<close>) together with the
  effects made so far.
\<close>

record bucle_estado =
  total_acc :: "registro list"
  inicio :: nat
  intentos_vacios :: nat
  traza :: "evento list"

text \<open>One pass through the body of \<open>while True\<close>: it leaves by \<open>break\<close> or goes round again.\<close>

datatype paso = Break bucle_estado | Sigue bucle_estado

definition iteracion ::
  "(string \<Rightarrow> respuesta) \<Rightarrow> string \<Rightarrow> string \<Rightarrow> string \<Rightarrow> bucle_estado \<Rightarrow> paso" where
  "iteracion get entidad municipio estrato st =
     (let fin = inicio st + BLOQUE - 1;
          url = construir_url entidad municipio estrato (inicio st) fin
      in case get url of
           Falla e \<Rightarrow>
             Break (st\<lparr>traza := traza st @
               [Peticion url,
                Imprime (''Error con '' @ entidad @ ''-'' @ municipio @ ''-'' @ estrato @ '': '' @ e)]\<rparr>)
         | Datos datos \<Rightarrow>
             (if datos = [] then
                (if intentos_vacios st + 1 \<ge> MAX_INTENTOS_VACIOS then
                   Break (st\<lparr>intentos_vacios := intentos_vacios st + 1,
                              traza := traza st @ [Peticion url]\<rparr>)
                 else
                   Sigue (st\<lparr>intentos_vacios := intentos_vacios st + 1,
                              inicio := inicio st + BLOQUE,
                              traza := traza st @ [Peticion url, Espera TIEMPO_ESPERA]\<rparr>))
              else
                (if length datos < BLOQUE then
                   Break (st\<lparr>total_acc := total_acc st @ datos,
                              intentos_vacios := 0,
                              traza := traza st @ [Peticion url]\<rparr>)
                 else
                   Sigue (st\<lparr>total_acc := total_acc st @ datos,
                              intentos_vacios := 0,
                              inicio := inicio st + BLOQUE,
                              traza := traza st @ [Peticion url, Espera TIEMPO_ESPERA]\<rparr>))))"

text \<open>
  The loop itself. Nothing in the source bounds it, so it is a partial function:
  \<open>None\<close> is the run that never leaves the loop.
\<close>

partial_function (option) bucle ::
  "(string \<Rightarrow> respuesta) \<Rightarrow> string \<Rightarrow> string \<Rightarrow> string \<Rightarrow> bucle_estado \<Rightarrow> bucle_estado option" where
  "bucle get entidad municipio estrato st =
     (case iteracion get entidad municipio estrato st of
        Break st' \<Rightarrow> Some st'
      | Sigue st' \<Rightarrow> bucle get entidad municipio estrato st')"

definition estado_inicial :: "evento list \<Rightarrow> bucle_estado" where
  "estado_inicial tr = \<lparr>total_acc = [], inicio = 1, intentos_vacios = 0, traza = tr\<rparr>"

text \<open>
  \<open>obtener_datos\<close> returns the list \<open>total\<close>; the model returns with it the effects, appended
  to those of the run so far.
\<close>

definition obtener_datos ::
  "(string \<Rightarrow> respuesta) \<Rightarrow> string \<Rightarrow> string \<Rightarrow> string \<Rightarrow> evento list
     \<Rightarrow> (registro list \<times> evento list) option" where
  "obtener_datos get entidad municipio estrato tr =
     (case bucle get entidad municipio estrato (estado_inicial tr) of
        None \<Rightarrow> None
      | Some st \<Rightarrow> Some (total_acc st, traza st))"

fun es_peticion :: "evento \<Rightarrow> bool" where
  "es_peticion (Peticion u) = True"
| "es_peticion e = False"

definition peticiones :: "evento list \<Rightarrow> nat" where
  "peticiones tr = length (filter es_peticion tr)"

section \<open>Tables\<close>

text \<open>
  The exceptions of the run that the source does not catch.
  \<open>ReadError\<close> stands for whatever \<open>pd.read_csv\<close> raises on a file it cannot read or parse,
  \<open>WriteError\<close> for whatever \<open>to_csv\<close>, \<open>to_excel\<close>, \<open>open\<close> or \<open>json.dump\<close> raises
  when a file cannot be written.
\<close>

datatype error = KeyError string | TypeError | AttributeError | ReadError | WriteError

text \<open>
  A pandas DataFrame: the column labels and the rows, each row holding one cell per
  column. The row index is not modelled (every consumer here ignores or resets it).
  A cell is looked up by its label, the first column of that label; the one place where
  the source would notice a repeated label, \<open>df[c].str\<close>, is modelled with its exception.
\<close>

record dataframe =
  columns :: "string list"
  filas :: "cell list list"

text \<open>First occurrences, in order: how pandas unites labels and which row \<open>keep='first'\<close> keeps.\<close>

fun primeros :: "('a \<Rightarrow> 'k) \<Rightarrow> 'k list \<Rightarrow> 'a list \<Rightarrow> 'a list" where
  "primeros f vistos [] = []"
| "primeros f vistos (x # xs) =
     (if f x \<in> set vistos then primeros f vistos xs
      else x # primeros f (f x # vistos) xs)"

definition valor :: "registro \<Rightarrow> string \<Rightarrow> cell" where
  "valor d c = (case map_of d c of Some v \<Rightarrow> v | None \<Rightarrow> NaN)"

text \<open>The cell of a row under a label; a label the row lacks reads as \<open>NaN\<close>.\<close>

definition celda :: "string list \<Rightarrow> cell list \<Rightarrow> string \<Rightarrow> cell" where
  "celda cols fila c = (case map_of (zip cols fila) c of Some v \<Rightarrow> v | None \<Rightarrow> NaN)"

text \<open>\<open>pd.DataFrame(datos)\<close> for a list of dicts: the union of the keys, missing cells \<open>NaN\<close>.\<close>

definition DataFrame :: "registro list \<Rightarrow> dataframe" where
  "DataFrame datos =
     (let cols = primeros id [] (concat (map (map fst) datos))
      in \<lparr>columns = cols, filas = map (\<lambda>d. map (valor d) cols) datos\<rparr>)"

text \<open>\<open>df.columns = df.columns.str.lower()\<close>\<close>

definition columnas_minusculas :: "dataframe \<Rightarrow> dataframe" where
  "columnas_minusculas df = df\<lparr>columns := map lower (columns df)\<rparr>"

text \<open>
  \<open>df[c].str\<close>: \<open>KeyError\<close> when no column has the label; when several have it \<open>df[c]\<close> is
  a frame, which has no \<open>.str\<close>.
\<close>

definition columna_str :: "dataframe \<Rightarrow> string \<Rightarrow> error + cell list" where
  "columna_str df c =
     (if c \<notin> set (columns df) then Inl (KeyError c)
      else if count_list (columns df) c > 1 then Inl AttributeError
      else Inr (map (\<lambda>fila. celda (columns df) fila c) (filas df)))"

text \<open>\<open>.str.lower()\<close> on one cell: a cell that is not a string gives \<open>NaN\<close>.\<close>

fun str_lower :: "cell \<Rightarrow> cell" where
  "str_lower (Str s) = Str (lower s)"
| "str_lower NaN = NaN"

text \<open>
  \<open>any(palabra in x for palabra in palabras)\<close>: the keywords are tried in order; on a cell
  that is not a string the first test \<open>palabra in x\<close> raises \<open>TypeError\<close>, and with no
  keyword at all nothing is tested.
\<close>

fun any_in :: "string list \<Rightarrow> cell \<Rightarrow> error + bool" where
  "any_in [] x = Inr False"
| "any_in (palabra # resto) NaN = Inl TypeError"
| "any_in (palabra # resto) (Str s) =
     (if str_in palabra s then Inr True else any_in resto (Str s))"

text \<open>\<open>Series.apply\<close>: the function on every cell in order; the first exception ends it.\<close>

fun apply_serie :: "(cell \<Rightarrow> error + bool) \<Rightarrow> cell list \<Rightarrow> error + bool list" where
  "apply_serie f [] = Inr []"
| "apply_serie f (x # xs) =
     (case f x of
        Inl e \<Rightarrow> Inl e
      | Inr b \<Rightarrow> (case apply_serie f xs of Inl e \<Rightarrow> Inl e | Inr bs \<Rightarrow> Inr (b # bs)))"

text \<open>\<open>df[filtro]\<close> with a boolean mask of the rows.\<close>

definition mascara :: "dataframe \<Rightarrow> bool list \<Rightarrow> dataframe" where
  "mascara df filtro = df\<lparr>filas := map fst (filter snd (zip (filas df) filtro))\<rparr>"

text \<open>\<open>df.empty\<close>: one of the two axes has length 0.\<close>

definition df_empty :: "dataframe \<Rightarrow> bool" where
  "df_empty df = (filas df = [] \<or> columns df = [])"

text \<open>
  \<open>pd.concat(dfs, ignore_index=True)\<close>: the labels united in order of first occurrence,
  the rows of every frame laid out under them. (The source calls it on non-empty lists
  only.)
\<close>

definition concat_df :: "dataframe list \<Rightarrow> dataframe" where
  "concat_df dfs =
     (let cols = primeros id [] (concat (map columns dfs))
      in \<lparr>columns = cols,
          filas = concat (map (\<lambda>df. map (\<lambda>fila. map (celda (columns df) fila) cols) (filas df)) dfs)\<rparr>)"

text \<open>\<open>df.drop_duplicates(subset=c)\<close>: the first row of every value of column \<open>c\<close>.\<close>

definition drop_duplicates :: "string \<Rightarrow> dataframe \<Rightarrow> error + dataframe" where
  "drop_duplicates c df =
     (if c \<notin> set (columns df) then Inl (KeyError c)
      else Inr (df\<lparr>filas := primeros (\<lambda>fila. celda (columns df) fila c) [] (filas df)\<rparr>))"

section \<open>Keyword filter\<close>

definition filtrar_con :: "string list \<Rightarrow> dataframe \<Rightarrow> error + dataframe" where
  "filtrar_con palabras df =
     (case columna_str df ''clase_actividad'' of
        Inl e \<Rightarrow> Inl e
      | Inr serie \<Rightarrow>
          (case apply_serie (any_in palabras) (map str_lower serie) of
             Inl e \<Rightarrow> Inl e
           | Inr filtro \<Rightarrow> Inr (mascara df filtro)))"

definition filtrar_por_giro :: "dataframe \<Rightarrow> error + dataframe" where
  "filtrar_por_giro df = filtrar_con PALABRAS_CLAVE df"

section \<open>Merge and persist\<close>

text \<open>
  An output file: absent, present but not readable as a table, or holding a table.
  The three encoders are the libraries'; a file is modelled by the table it holds.
\<close>

datatype archivo = Ausente | Ilegible | Tabla dataframe

text \<open>
  The three output files, the effects of the run so far, and how the machine answers a
  write: \<open>al_escribir w nombre df a\<close> is \<open>None\<close> when writing the table \<open>df\<close> to the file
  \<open>nombre\<close>, now \<open>a\<close>, succeeds, and \<open>Some a'\<close> when the writer raises, leaving the file as
  \<open>a'\<close> (a disk that is full, a file that may not be opened, a library that is missing, a
  cell the format cannot hold).
\<close>

record mundo =
  csv :: archivo
  xlsx :: archivo
  json :: archivo
  eventos :: "evento list"
  al_escribir :: "string \<Rightarrow> dataframe \<Rightarrow> archivo \<Rightarrow> archivo option"

text \<open>The default NA markers of \<open>pd.read_csv\<close>; the empty field is one of them.\<close>

definition STR_NA_VALUES :: "string list" where
  "STR_NA_VALUES =
     [[], ''#N/A'', ''#N/A N/A'', ''#NA'', ''-1.#IND'', ''-1.#QNAN'', ''-NaN'', ''-nan'',
      ''1.#IND'', ''1.#QNAN'', ''<NA>'', ''N/A'', ''NA'', ''NULL'', ''NaN'', ''None'',
      ''n/a'', ''nan'', ''null'']"

fun leer_celda :: "cell \<Rightarrow> cell" where
  "leer_celda NaN = NaN"
| "leer_celda (Str s) = (if s \<in> set STR_NA_VALUES then NaN else Str s)"

text \<open>\<open>os.path.exists\<close>\<close>

definition exists_archivo :: "archivo \<Rightarrow> bool" where
  "exists_archivo a = (a \<noteq> Ausente)"

text \<open>\<open>pd.read_csv(ARCHIVO_CSV, dtype=str)\<close>\<close>

fun read_csv :: "archivo \<Rightarrow> error + dataframe" where
  "read_csv (Tabla df) = Inr (df\<lparr>filas := map (map leer_celda) (filas df)\<rparr>)"
| "read_csv Ilegible = Inl ReadError"
| "read_csv Ausente = Inl ReadError"

text \<open>
  \<open>guardar_todos_formatos\<close>: the exception that left it, if any, and the world it leaves.
  Reading and merging come first and touch no file. Then the three files are written one
  after the other, CSV, XLSX, JSON, and nothing is caught: a writer that raises ends the
  call with the files before it already written and the files after it untouched.
\<close>

definition guardar_todos_formatos :: "dataframe \<Rightarrow> mundo \<Rightarrow> error option \<times> mundo" where
  "guardar_todos_formatos df w =
     (case (if exists_archivo (csv w) then
              (case read_csv (csv w) of
                 Inl e \<Rightarrow> Inl e
               | Inr df_existente \<Rightarrow> drop_duplicates ''id'' (concat_df [df_existente, df]))
            else Inr df) of
        Inl e \<Rightarrow> (Some e, w)
      | Inr df_total \<Rightarrow>
          (let w1 = w\<lparr>eventos := eventos w @ [Escribe ARCHIVO_CSV]\<rparr>
           in case al_escribir w ARCHIVO_CSV df_total (csv w) of
                Some a \<Rightarrow> (Some WriteError, w1\<lparr>csv := a\<rparr>)
              | None \<Rightarrow>
                  (let w2 = w1\<lparr>csv := Tabla df_total,
                               eventos := eventos w1 @ [Escribe ARCHIVO_XLSX]\<rparr>
                   in case al_escribir w ARCHIVO_XLSX df_total (xlsx w) of
                        Some a \<Rightarrow> (Some WriteError, w2\<lparr>xlsx := a\<rparr>)
                      | None \<Rightarrow>
                          (let w3 = w2\<lparr>xlsx := Tabla df_total,
                                       eventos := eventos w2 @ [Escribe ARCHIVO_JSON]\<rparr>
                           in case al_escribir w ARCHIVO_JSON df_total (json w) of
                                Some a \<Rightarrow> (Some WriteError, w3\<lparr>json := a\<rparr>)
                              | None \<Rightarrow>
                                  (None,
                                   w3\<lparr>json := Tabla df_total,
                                      eventos := eventos w3 @
                                        [Imprime (''Archivos guardados: '' @ ARCHIVO_CSV @ '', ''
                                                  @ ARCHIVO_XLSX @ '', '' @ ARCHIVO_JSON)]\<rparr>)))))"

section \<open>Orchestrator\<close>

record main_estado =
  registros_filtrados :: "dataframe list"
  salida :: "evento list"

text \<open>
  The body of the inner \<open>for\<close> loop for one (entidad, estrato). The result is
  \<open>None\<close> when the pagination never returns; otherwise the exception that left the body,
  if any, and the state after it.
\<close>

definition combinacion ::
  "(string \<Rightarrow> respuesta) \<Rightarrow> string \<times> string \<Rightarrow> main_estado \<Rightarrow> (error option \<times> main_estado) option" where
  "combinacion get c ms =
     (case c of (entidad, estrato) \<Rightarrow>
        (let municipio = ''0'';
             tr = salida ms @
                  [Imprime (''>>> Consultando entidad '' @ entidad @ '', estrato '' @ estrato)]
         in case obtener_datos get entidad municipio estrato tr of
              None \<Rightarrow> None
            | Some (datos, tr') \<Rightarrow>
                (if datos = [] then Some (None, ms\<lparr>salida := tr'\<rparr>)
                 else
                   (case filtrar_por_giro (columnas_minusculas (DataFrame datos)) of
                      Inl e \<Rightarrow> Some (Some e, ms\<lparr>salida := tr'\<rparr>)
                    | Inr df_filtrado \<Rightarrow>
                        (if \<not> df_empty df_filtrado then
                           Some (None, ms\<lparr>registros_filtrados :=
                                              registros_filtrados ms @ [df_filtrado],
                                            salida := tr'\<rparr>)
                         else Some (None, ms\<lparr>salida := tr'\<rparr>))))))"

text \<open>
  The two nested \<open>for\<close> loops, as one pass over the (entidad, estrato) pairs in the order
  the loops visit them. An exception leaves the loops at once.
\<close>

fun recorrer ::
  "(string \<Rightarrow> respuesta) \<Rightarrow> (string \<times> string) list \<Rightarrow> main_estado
     \<Rightarrow> (error option \<times> main_estado) option" where
  "recorrer get [] ms = Some (None, ms)"
| "recorrer get (c # cs) ms =
     (case combinacion get c ms of
        None \<Rightarrow> None
      | Some (Some e, ms') \<Rightarrow> Some (Some e, ms')
      | Some (None, ms') \<Rightarrow> recorrer get cs ms')"

definition NO_ENCONTRADOS :: string where
  "NO_ENCONTRADOS =
     ''No se encontraron registros con esos giros y tama'' @ [CHR 0xF1] @ ''os.''"

text \<open>
  \<open>main\<close> over a given list of pairs: \<open>None\<close> when it never returns, otherwise the
  uncaught exception, if any, and the world it leaves.
\<close>

definition main_con ::
  "(string \<times> string) list \<Rightarrow> (string \<Rightarrow> respuesta) \<Rightarrow> mundo \<Rightarrow> (error option \<times> mundo) option" where
  "main_con pares get w =
     (case recorrer get pares \<lparr>registros_filtrados = [], salida = eventos w\<rparr> of
        None \<Rightarrow> None
      | Some (Some e, ms) \<Rightarrow> Some (Some e, w\<lparr>eventos := salida ms\<rparr>)
      | Some (None, ms) \<Rightarrow>
          (if registros_filtrados ms \<noteq> [] then
             Some (guardar_todos_formatos (concat_df (registros_filtrados ms))
                     (w\<lparr>eventos := salida ms\<rparr>))
           else Some (None, w\<lparr>eventos := salida ms @ [Imprime NO_ENCONTRADOS]\<rparr>)))"

definition main :: "(string \<Rightarrow> respuesta) \<Rightarrow> mundo \<Rightarrow> (error option \<times> mundo) option" where
  "main get w = main_con (List.product ENTIDADES ESTRATOS) get w"

section \<open>Notions used to state the properties\<close>

text \<open>The URL the loop asks for in a given state.\<close>

definition url_de :: "string \<Rightarrow> string \<Rightarrow> string \<Rightarrow> bucle_estado \<Rightarrow> string" where
  "url_de entidad municipio estrato st =
     construir_url entidad municipio estrato (inicio st) (inicio st + BLOQUE - 1)"


text \<open>The \<open>id\<close> column of a table, and the number of rows of the table a file holds.\<close>

definition columna_id :: "dataframe \<Rightarrow> cell list" where
  "columna_id df = map (\<lambda>fila. celda (columns df) fila ''id'') (filas df)"

fun n_filas :: "archivo \<Rightarrow> nat" where
  "n_filas (Tabla df) = length (filas df)"
| "n_filas Ausente = 0"
| "n_filas Ilegible = 0"

text \<open>The text of a cell that holds a string.\<close>

fun texto :: "cell \<Rightarrow> string" where
  "texto (Str s) = s"
| "texto NaN = []"




text \<open>
  Two runs of \<open>guardar_todos_formatos\<close> on the same input, the second on the files the
  first one left: the world after each, or the exception that ended one of them.
\<close>

definition dos_veces :: "dataframe \<Rightarrow> mundo \<Rightarrow> error + (mundo \<times> mundo)" where
  "dos_veces df w =
     (case guardar_todos_formatos df w of
        (Some e, w1) \<Rightarrow> Inl e
      | (None, w1) \<Rightarrow>
          (case guardar_todos_formatos df w1 of
             (Some e, w2) \<Rightarrow> Inl e
           | (None, w2) \<Rightarrow> Inr (w1, w2)))"

subsection \<open>Concrete inputs\<close>

text \<open>A machine on which every write succeeds.\<close>

definition nunca_falla :: "string \<Rightarrow> dataframe \<Rightarrow> archivo \<Rightarrow> archivo option" where
  "nunca_falla nombre df a = None"

text \<open>
  A machine on which the workbook cannot be written (the other two files can): the
  writer raises and leaves the XLSX file as it was.
\<close>

definition falla_xlsx :: "string \<Rightarrow> dataframe \<Rightarrow> archivo \<Rightarrow> archivo option" where
  "falla_xlsx nombre df a = (if nombre = ARCHIVO_XLSX then Some a else None)"

definition mundo_vacio :: mundo where
  "mundo_vacio = \<lparr>csv = Ausente, xlsx = Ausente, json = Ausente, eventos = [],
                   al_escribir = nunca_falla\<rparr>"

definition mundo_ilegible :: mundo where
  "mundo_ilegible = \<lparr>csv = Ilegible, xlsx = Ausente, json = Ausente, eventos = [],
                      al_escribir = nunca_falla\<rparr>"

text \<open>Two filtered rows that carry the same \<open>id\<close>.\<close>

definition df_dup :: dataframe where
  "df_dup =
     \<lparr>columns = [''id'', ''clase_actividad''],
      filas = [[Str ''1'', Str ''laboratorio''], [Str ''1'', Str ''laboratorio'']]\<rparr>"

definition df_uno :: dataframe where
  "df_uno = \<lparr>columns = [''id'', ''clase_actividad''], filas = [[Str ''7'', Str ''manufactura'']]\<rparr>"

text \<open>Sources and states for the paginator.\<close>

definition registro_lab :: registro where
  "registro_lab = [(''Id'', Str ''1''), (''Clase_actividad'', Str ''Laboratorios de pruebas'')]"

definition fuente_pagina_llena :: "string \<Rightarrow> respuesta" where
  "fuente_pagina_llena u =
     (if u = construir_url ''09'' ''0'' ''6'' 1 1000 then Datos (replicate 1000 registro_lab)
      else Datos [])"

definition fuente_vacia :: "string \<Rightarrow> respuesta" where
  "fuente_vacia u = Datos []"










text \<open>Tables, sources and worlds for the filter and the orchestrator.\<close>

definition df_giros :: dataframe where
  "df_giros =
     \<lparr>columns = [''id'', ''clase_actividad''],
      filas = [[Str ''1'', Str (''Industria Farmac'' @ [CHR 0xE9] @ ''utica de M'' @ [CHR 0xE9] @ ''xico'')],
               [Str ''2'', Str ''Comercio al por menor''],
               [Str ''3'', Str ''LABORATORIOS de pruebas'']]\<rparr>"

definition df_sin_clase :: dataframe where
  "df_sin_clase = \<lparr>columns = [''id''], filas = [[Str ''1'']]\<rparr>"

definition df_clase_nula :: dataframe where
  "df_clase_nula =
     \<lparr>columns = [''id'', ''clase_actividad''],
      filas = [[Str ''1'', Str ''laboratorio''], [Str ''2'', NaN]]\<rparr>"

definition fuente_sin_clase :: "string \<Rightarrow> respuesta" where
  "fuente_sin_clase u = Datos [[(''Id'', Str ''1'')]]"

definition fuente_laboratorio :: "string \<Rightarrow> respuesta" where
  "fuente_laboratorio u = Datos [registro_lab]"

definition df_lab :: dataframe where
  "df_lab = \<lparr>columns = [''id'', ''clase_actividad''],
             filas = [[Str ''1'', Str ''Laboratorios de pruebas'']]\<rparr>"

definition ms_lab :: main_estado where
  "ms_lab = \<lparr>registros_filtrados = [df_lab],
             salida = [Imprime ''>>> Consultando entidad 09, estrato 6'',
                       Peticion (construir_url ''09'' ''0'' ''6'' 1 BLOQUE)]\<rparr>"



section \<open>Merge and persist: properties\<close>



text \<open>
  C1 (the written dataset never holds two records with the same \<open>id\<close>, also when no
  previous file exists). The source deduplicates only in the branch that found a previous
  CSV; with no previous file it writes its input as it is. At \<open>df_dup\<close> and no files, the
  three files receive both rows, whose \<open>id\<close> cells are equal.
\<close>

theorem C1_sin_previo_escribe_duplicados:
  "guardar_todos_formatos df_dup mundo_vacio =
     (None,
      \<lparr>csv = Tabla df_dup, xlsx = Tabla df_dup, json = Tabla df_dup,
       eventos =
         [Escribe ARCHIVO_CSV, Escribe ARCHIVO_XLSX, Escribe ARCHIVO_JSON,
          Imprime (''Archivos guardados: '' @ ARCHIVO_CSV @ '', '' @ ARCHIVO_XLSX
                   @ '', '' @ ARCHIVO_JSON)],
       al_escribir = nunca_falla\<rparr>)
   \<and> columna_id df_dup = [Str ''1'', Str ''1'']"
  by (simp add: guardar_todos_formatos_def exists_archivo_def mundo_vacio_def nunca_falla_def
        columna_id_def df_dup_def celda_def)

text \<open>
  The writes are made one after the other and nothing is caught: on a machine where the
  workbook cannot be written, the call ends with the exception of \<open>to_excel\<close>, the CSV
  file already written, the JSON file not reached and no closing line printed.
\<close>

lemma guardar_falla_en_xlsx:
  "guardar_todos_formatos df_uno (mundo_vacio\<lparr>al_escribir := falla_xlsx\<rparr>) =
     (Some WriteError,
      \<lparr>csv = Tabla df_uno, xlsx = Ausente, json = Ausente,
       eventos = [Escribe ARCHIVO_CSV, Escribe ARCHIVO_XLSX],
       al_escribir = falla_xlsx\<rparr>)"
  by (simp add: guardar_todos_formatos_def exists_archivo_def mundo_vacio_def falla_xlsx_def
        ARCHIVO_CSV_def ARCHIVO_XLSX_def)

text \<open>
  C6 (a second run on the first run's output leaves the row count as it was). Starting
  with no files, the first run writes the two rows of \<open>df_dup\<close> undeduplicated; the second
  run finds the CSV, deduplicates, and writes one row.
\<close>

theorem C6_segunda_corrida_cambia_cardinalidad:
  "map_sum id (\<lambda>(w1, w2). (n_filas (csv w1), n_filas (csv w2))) (dos_veces df_dup mundo_vacio)
     = Inr (2, 1)"
  by (simp add: dos_veces_def guardar_todos_formatos_def exists_archivo_def mundo_vacio_def
        nunca_falla_def df_dup_def concat_df_def drop_duplicates_def celda_def STR_NA_VALUES_def)

section \<open>Paginator: properties\<close>

lemma bucle_Break: "iteracion get e m s st = Break st' \<Longrightarrow> bucle get e m s st = Some st'"
  by (subst bucle.simps) simp

lemma bucle_Sigue:
  "iteracion get e m s st = Sigue st' \<Longrightarrow> bucle get e m s st = bucle get e m s st'"
  by (subst bucle.simps) simp


lemma iteracion_vacio:
  "get (url_de e m s st) = Datos [] \<Longrightarrow>
   iteracion get e m s st =
     (if intentos_vacios st \<ge> 1
      then Break (st\<lparr>intentos_vacios := intentos_vacios st + 1,
                    traza := traza st @ [Peticion (url_de e m s st)]\<rparr>)
      else Sigue (st\<lparr>intentos_vacios := intentos_vacios st + 1,
                    inicio := inicio st + BLOQUE,
                    traza := traza st @ [Peticion (url_de e m s st), Espera TIEMPO_ESPERA]\<rparr>))"
  by (simp add: iteracion_def url_de_def Let_def MAX_INTENTOS_VACIOS_def)

lemma iteracion_llena:
  "get (url_de e m s st) = Datos datos \<Longrightarrow> length datos = BLOQUE \<Longrightarrow>
   iteracion get e m s st =
     Sigue (st\<lparr>total_acc := total_acc st @ datos, intentos_vacios := 0,
               inicio := inicio st + BLOQUE,
               traza := traza st @ [Peticion (url_de e m s st), Espera TIEMPO_ESPERA]\<rparr>)"
  by (auto simp add: iteracion_def url_de_def Let_def BLOQUE_def)

lemma iteracion_Break_peticiones:
  "iteracion get e m s st = Break st' \<Longrightarrow> peticiones (traza st') = Suc (peticiones (traza st))"
  by (auto simp add: iteracion_def Let_def peticiones_def split: respuesta.splits if_splits)

lemma iteracion_Sigue_peticiones:
  "iteracion get e m s st = Sigue st' \<Longrightarrow>
     peticiones (traza st') = Suc (peticiones (traza st)) \<and> inicio st' = inicio st + BLOQUE"
  by (auto simp add: iteracion_def Let_def peticiones_def split: respuesta.splits if_splits)




lemma bucle_mas_alla:
  assumes vac: "\<And>i. N < i \<Longrightarrow> get (construir_url e m s i (i + BLOQUE - 1)) = Datos []"
      and i: "N < inicio st"
  shows "\<exists>st'. bucle get e m s st = Some st' \<and> peticiones (traza st') \<le> peticiones (traza st) + 2"
proof (cases "intentos_vacios st \<ge> 1")
  case True
  have g: "get (url_de e m s st) = Datos []" unfolding url_de_def by (rule vac[OF i])
  have "iteracion get e m s st = Break (st\<lparr>intentos_vacios := intentos_vacios st + 1,
                    traza := traza st @ [Peticion (url_de e m s st)]\<rparr>)"
    using iteracion_vacio[of get e m s st, OF g] True by simp
  from bucle_Break[OF this] show ?thesis by (simp add: peticiones_def)
next
  case False
  have g: "get (url_de e m s st) = Datos []" unfolding url_de_def by (rule vac[OF i])
  define st1 where "st1 = st\<lparr>intentos_vacios := intentos_vacios st + 1,
                    inicio := inicio st + BLOQUE,
                    traza := traza st @ [Peticion (url_de e m s st), Espera TIEMPO_ESPERA]\<rparr>"
  have it1: "iteracion get e m s st = Sigue st1"
    using iteracion_vacio[of get e m s st, OF g] False by (simp add: st1_def)
  have i1: "N < inicio st1" using i by (simp add: st1_def)
  have g1: "get (url_de e m s st1) = Datos []" unfolding url_de_def by (rule vac[OF i1])
  have it2: "iteracion get e m s st1 = Break (st1\<lparr>intentos_vacios := intentos_vacios st1 + 1,
                    traza := traza st1 @ [Peticion (url_de e m s st1)]\<rparr>)"
    using iteracion_vacio[of get e m s st1, OF g1] by (simp add: st1_def)
  have "bucle get e m s st = Some (st1\<lparr>intentos_vacios := intentos_vacios st1 + 1,
                    traza := traza st1 @ [Peticion (url_de e m s st1)]\<rparr>)"
    using bucle_Sigue[OF it1] bucle_Break[OF it2] by simp
  then show ?thesis by (simp add: st1_def peticiones_def)
qed

lemma bucle_finito:
  assumes vac: "\<And>i. N < i \<Longrightarrow> get (construir_url e m s i (i + BLOQUE - 1)) = Datos []"
  shows "\<exists>st'. bucle get e m s st = Some st' \<and>
           peticiones (traza st') \<le> peticiones (traza st) + ((N + BLOQUE - inicio st) div BLOQUE + 2)"
proof (induction "N + BLOQUE - inicio st" arbitrary: st rule: less_induct)
  case less
  show ?case
  proof (cases "N < inicio st")
    case True
    from bucle_mas_alla[of N get e m s st, OF vac True] show ?thesis by (meson le_trans add_le_mono le_add2 order_refl)
  next
    case False
    show ?thesis
    proof (cases "iteracion get e m s st")
      case (Break st')
      from bucle_Break[OF Break] iteracion_Break_peticiones[OF Break] show ?thesis by simp
    next
      case (Sigue st1)
      note p = iteracion_Sigue_peticiones[OF Sigue]
      have dec: "N + BLOQUE - inicio st1 < N + BLOQUE - inicio st"
        using p False by (simp add: BLOQUE_def)
      from less[OF dec] obtain st' where b: "bucle get e m s st1 = Some st'"
        and le: "peticiones (traza st') \<le> peticiones (traza st1) + ((N + BLOQUE - inicio st1) div BLOQUE + 2)"
        by blast
      have "(N + BLOQUE - inicio st1) div BLOQUE + 1 = (N + BLOQUE - inicio st) div BLOQUE"
        using p False by (simp add: BLOQUE_def) 
      with le p have "peticiones (traza st') \<le> peticiones (traza st) + ((N + BLOQUE - inicio st) div BLOQUE + 2)"
        by linarith
      with b bucle_Sigue[OF Sigue] show ?thesis by simp
    qed
  qed
qed

text \<open>
  C7: against a finite source, one whose windows starting beyond some offset \<open>N\<close> are all
  empty, \<open>obtener_datos\<close> returns, and it has made at most \<open>N div BLOQUE + 3\<close> requests.
\<close>

theorem C7_paginacion_termina:
  assumes "\<forall>i. N < i \<longrightarrow> get (construir_url entidad municipio estrato i (i + BLOQUE - 1)) = Datos []"
  shows "\<exists>datos tr'. obtener_datos get entidad municipio estrato tr = Some (datos, tr')
           \<and> peticiones tr' \<le> peticiones tr + (N div BLOQUE + 3)"
proof -
  from assms have vac: "\<And>i. N < i \<Longrightarrow> get (construir_url entidad municipio estrato i (i + BLOQUE - 1)) = Datos []"
    by blast
  from bucle_finito[of N get entidad municipio estrato "estado_inicial tr", OF vac]
  obtain st' where b: "bucle get entidad municipio estrato (estado_inicial tr) = Some st'"
    and le: "peticiones (traza st') \<le> peticiones (traza (estado_inicial tr))
               + ((N + BLOQUE - inicio (estado_inicial tr)) div BLOQUE + 2)"
    by blast
  have "(N + BLOQUE - inicio (estado_inicial tr)) div BLOQUE \<le> N div BLOQUE + 1"
    by (simp add: estado_inicial_def BLOQUE_def)
  with le have "peticiones (traza st') \<le> peticiones tr + (N div BLOQUE + 3)"
    by (simp add: estado_inicial_def)
  with b show ?thesis by (simp add: obtener_datos_def)
qed

theorem C7_paginacion_termina_witness:
  "\<exists>datos tr'. obtener_datos fuente_vacia ''09'' ''0'' ''6'' [] = Some (datos, tr')
      \<and> peticiones tr' \<le> peticiones [] + (0 div BLOQUE + 3)"
  using C7_paginacion_termina [of 0 fuente_vacia "''09''" "''0''" "''6''" "[]"]
  by (simp add: fuente_vacia_def)

lemma obtener_datos_llena_vacia_vacia:
  assumes p1: "get (construir_url e m s 1 BLOQUE) = Datos pagina"
      and len: "length pagina = BLOQUE"
      and p2: "get (construir_url e m s (BLOQUE + 1) (2 * BLOQUE)) = Datos []"
      and p3: "get (construir_url e m s (2 * BLOQUE + 1) (3 * BLOQUE)) = Datos []"
  shows "obtener_datos get e m s tr =
     Some (pagina,
           tr @ [Peticion (construir_url e m s 1 BLOQUE), Espera TIEMPO_ESPERA,
                 Peticion (construir_url e m s (BLOQUE + 1) (2 * BLOQUE)), Espera TIEMPO_ESPERA,
                 Peticion (construir_url e m s (2 * BLOQUE + 1) (3 * BLOQUE))])"
proof -
  define st0 where "st0 = estado_inicial tr"
  define st1 where "st1 = st0\<lparr>total_acc := total_acc st0 @ pagina, intentos_vacios := 0,
               inicio := inicio st0 + BLOQUE,
               traza := traza st0 @ [Peticion (url_de e m s st0), Espera TIEMPO_ESPERA]\<rparr>"
  define st2 where "st2 = st1\<lparr>intentos_vacios := intentos_vacios st1 + 1,
                    inicio := inicio st1 + BLOQUE,
                    traza := traza st1 @ [Peticion (url_de e m s st1), Espera TIEMPO_ESPERA]\<rparr>"
  define st3 where "st3 = st2\<lparr>intentos_vacios := intentos_vacios st2 + 1,
                    traza := traza st2 @ [Peticion (url_de e m s st2)]\<rparr>"
  have u0: "url_de e m s st0 = construir_url e m s 1 BLOQUE"
    by (simp add: url_de_def st0_def estado_inicial_def)
  have u1: "url_de e m s st1 = construir_url e m s (BLOQUE + 1) (2 * BLOQUE)"
    by (simp add: url_de_def st1_def st0_def estado_inicial_def BLOQUE_def)
  have u2: "url_de e m s st2 = construir_url e m s (2 * BLOQUE + 1) (3 * BLOQUE)"
    by (simp add: url_de_def st2_def st1_def st0_def estado_inicial_def BLOQUE_def)
  have i0: "iteracion get e m s st0 = Sigue st1"
    using iteracion_llena[of get e m s st0 pagina] p1 len u0 by (simp add: st1_def)
  have i1: "iteracion get e m s st1 = Sigue st2"
    using iteracion_vacio[of get e m s st1] p2 u1 by (simp add: st2_def st1_def)
  have i2: "iteracion get e m s st2 = Break st3"
    using iteracion_vacio[of get e m s st2] p3 u2 by (simp add: st3_def st2_def st1_def)
  have b: "bucle get e m s (estado_inicial tr) = Some st3"
    using bucle_Sigue[OF i0] bucle_Sigue[OF i1] bucle_Break[OF i2] by (simp add: st0_def)
  have t1: "traza st1 = tr @ [Peticion (url_de e m s st0), Espera TIEMPO_ESPERA]"
    by (simp add: st1_def st0_def estado_inicial_def)
  have t2: "traza st2 = traza st1 @ [Peticion (url_de e m s st1), Espera TIEMPO_ESPERA]"
    by (simp add: st2_def)
  have t3: "traza st3 = traza st2 @ [Peticion (url_de e m s st2)]"
    by (simp add: st3_def)
  have tot: "total_acc st3 = pagina"
    by (simp add: st3_def st2_def st1_def st0_def estado_inicial_def)
  show ?thesis
    by (simp add: obtener_datos_def b tot t3 t2 t1 u0 u1 u2)
qed



lemma str_nat_numerales:
  "str_nat 1 = ''1''" "str_nat 1000 = ''1000''" "str_nat 1001 = ''1001''"
  "str_nat 2000 = ''2000''" "str_nat 2001 = ''2001''" "str_nat 3000 = ''3000''"
  by (simp_all add: str_nat.simps char_of_eq_iff)

lemma fuente_pagina_llena_paginas:
  "fuente_pagina_llena (construir_url ''09'' ''0'' ''6'' 1 BLOQUE) = Datos (replicate 1000 registro_lab)"
  "fuente_pagina_llena (construir_url ''09'' ''0'' ''6'' (BLOQUE + 1) (2 * BLOQUE)) = Datos []"
  "fuente_pagina_llena (construir_url ''09'' ''0'' ''6'' (2 * BLOQUE + 1) (3 * BLOQUE)) = Datos []"
  by (simp_all add: fuente_pagina_llena_def BLOQUE_def construir_url_def str_nat_numerales)


text \<open>
  C2, as the spec has it: a full first page and an empty second page make the paginator
  stop after exactly 2 requests. It is false: one empty answer is below
  \<open>MAX_INTENTOS_VACIOS\<close>, so a third window is always asked for. With the source
  \<open>fuente_pagina_llena\<close> the run makes 3 requests.
\<close>

theorem C2_counterexample:
  "fuente_pagina_llena (construir_url ''09'' ''0'' ''6'' 1 BLOQUE) = Datos (replicate 1000 registro_lab)
   \<and> length (replicate 1000 registro_lab) = BLOQUE
   \<and> fuente_pagina_llena (construir_url ''09'' ''0'' ''6'' (BLOQUE + 1) (2 * BLOQUE)) = Datos []
   \<and> map_option (peticiones \<circ> snd)
        (obtener_datos fuente_pagina_llena ''09'' ''0'' ''6'' []) = Some 3"
proof -
  have len: "length (replicate 1000 registro_lab) = BLOQUE"
    by (simp add: BLOQUE_def)
  note pags = fuente_pagina_llena_paginas
  from obtener_datos_llena_vacia_vacia [of fuente_pagina_llena "''09''" "''0''" "''6''"
          "replicate 1000 registro_lab" "[]", OF pags(1) len pags(2) pags(3)]
  have "map_option (peticiones \<circ> snd)
        (obtener_datos fuente_pagina_llena ''09'' ''0'' ''6'' []) = Some 3"
    by (simp add: peticiones_def)
  with len pags show ?thesis by blast
qed

text \<open>
  C2, amended: if the source returns exactly \<open>BLOQUE\<close> records for the first window and
  no records for the second and for the third window, then \<open>obtener_datos\<close> makes exactly
  3 requests and returns exactly the records of the first page.
\<close>

theorem C2_tres_peticiones:
  assumes "get (construir_url entidad municipio estrato 1 BLOQUE) = Datos pagina"
      and "length pagina = BLOQUE"
      and "get (construir_url entidad municipio estrato (BLOQUE + 1) (2 * BLOQUE)) = Datos []"
      and "get (construir_url entidad municipio estrato (2 * BLOQUE + 1) (3 * BLOQUE)) = Datos []"
  shows "\<exists>tr'. obtener_datos get entidad municipio estrato tr = Some (pagina, tr')
           \<and> peticiones tr' = peticiones tr + 3"
  using obtener_datos_llena_vacia_vacia [of get entidad municipio estrato pagina tr, OF assms]
  by (simp add: peticiones_def)

theorem C2_tres_peticiones_witness:
  "fuente_pagina_llena (construir_url ''09'' ''0'' ''6'' 1 BLOQUE) = Datos (replicate 1000 registro_lab)
   \<and> length (replicate 1000 registro_lab) = BLOQUE
   \<and> fuente_pagina_llena (construir_url ''09'' ''0'' ''6'' (BLOQUE + 1) (2 * BLOQUE)) = Datos []
   \<and> fuente_pagina_llena (construir_url ''09'' ''0'' ''6'' (2 * BLOQUE + 1) (3 * BLOQUE)) = Datos []
   \<and> (\<exists>tr'. obtener_datos fuente_pagina_llena ''09'' ''0'' ''6'' [] = Some (replicate 1000 registro_lab, tr')
           \<and> peticiones tr' = peticiones [] + 3)"
proof -
  have len: "length (replicate 1000 registro_lab) = BLOQUE"
    by (simp add: BLOQUE_def)
  note pags = fuente_pagina_llena_paginas
  from C2_tres_peticiones [of fuente_pagina_llena "''09''" "''0''" "''6''"
          "replicate 1000 registro_lab" "[]", OF pags(1) len pags(2) pags(3)]
  show ?thesis using len pags by blast
qed

section \<open>Keyword filter: properties\<close>

lemma str_in_sublist: "str_in p x = sublist p x"
  by (induction x) (simp_all add: sublist_Cons_right)

lemma lower_char_no_upper: "\<not> isupper (lower_char c)"
proof (cases "isupper c")
  case False
  then show ?thesis by (simp add: lower_char_def)
next
  case True
  then have "(of_char c :: nat) \<le> 222" by (auto simp add: isupper_def Let_def)
  then have "(of_char (char_of ((of_char c :: nat) + 32)) :: nat) = of_char c + 32"
    by simp
  with True show ?thesis
    by (auto simp add: lower_char_def isupper_def Let_def)
qed

lemma lower_no_upper: "c \<in> set (lower s) \<Longrightarrow> \<not> isupper c"
  by (auto simp add: lower_def lower_char_no_upper)

lemma upper_not_in_lower:
  assumes "\<exists>c\<in>set p. isupper c"
  shows "\<not> str_in p (lower s)"
proof
  assume "str_in p (lower s)"
  then have "sublist p (lower s)" by (simp add: str_in_sublist)
  then have "set p \<subseteq> set (lower s)" by (rule set_mono_sublist)
  with assms lower_no_upper show False by blast
qed

lemma lower_idem: "(\<forall>c\<in>set p. \<not> isupper c) \<Longrightarrow> lower p = p"
  by (induction p) (simp_all add: lower_def lower_char_def)

lemma any_in_Str:
  "any_in palabras (Str s) = Inr (\<exists>p\<in>set palabras. str_in p s)"
  by (induction palabras) auto

lemma apply_serie_Str:
  assumes "\<forall>x\<in>set serie. \<exists>s. x = Str s"
  shows "apply_serie (any_in palabras) (map str_lower serie) =
           Inr (map (\<lambda>x. \<exists>p\<in>set palabras. str_in p (lower (texto x))) serie)"
  using assms
proof (induction serie)
  case Nil
  show ?case by simp
next
  case (Cons x xs)
  from Cons.prems obtain s where x: "x = Str s" by auto
  from Cons have "apply_serie (any_in palabras) (map str_lower xs) =
           Inr (map (\<lambda>x. \<exists>p\<in>set palabras. str_in p (lower (texto x))) xs)" by simp
  with x show ?case by (simp add: any_in_Str)
qed

lemma apply_serie_NaN:
  assumes "NaN \<in> set serie" and "palabras \<noteq> []"
  shows "\<exists>e. apply_serie (any_in palabras) (map str_lower serie) = Inl e"
  using assms
proof (induction serie)
  case Nil
  then show ?case by simp
next
  case (Cons x xs)
  from \<open>palabras \<noteq> []\<close> obtain p ps where ps: "palabras = p # ps" by (cases palabras) auto
  show ?case
  proof (cases x)
    case NaN
    with ps show ?thesis by simp
  next
    case (Str s)
    with Cons obtain e where "apply_serie (any_in palabras) (map str_lower xs) = Inl e" by auto
    with Str show ?thesis by (simp add: any_in_Str)
  qed
qed

lemma mascara_map:
  "map fst (filter snd (zip xs (map g xs))) = filter g xs"
  by (induction xs) auto

lemma filtrar_con_ok:
  assumes col: "count_list (columns df) ''clase_actividad'' = 1"
      and str: "\<forall>fila\<in>set (filas df). \<exists>s. celda (columns df) fila ''clase_actividad'' = Str s"
  shows "filtrar_con palabras df =
           Inr (df\<lparr>filas := filter (\<lambda>fila. \<exists>p\<in>set palabras.
                       sublist p (lower (texto (celda (columns df) fila ''clase_actividad''))))
                     (filas df)\<rparr>)"
proof -
  from col have mem: "''clase_actividad'' \<in> set (columns df)"
    by (metis count_list_0_iff zero_neq_one)
  let ?serie = "map (\<lambda>fila. celda (columns df) fila ''clase_actividad'') (filas df)"
  have cs: "columna_str df ''clase_actividad'' = Inr ?serie"
    using col mem by (simp add: columna_str_def)
  have all: "\<forall>x\<in>set ?serie. \<exists>s. x = Str s" using str by auto
  let ?g = "\<lambda>fila. \<exists>p\<in>set palabras.
              str_in p (lower (texto (celda (columns df) fila ''clase_actividad'')))"
  have ap: "apply_serie (any_in palabras) (map str_lower ?serie) = Inr (map ?g (filas df))"
    using apply_serie_Str[OF all, of palabras] by (simp add: comp_def)
  have "filtrar_con palabras df = Inr (mascara df (map ?g (filas df)))"
    unfolding filtrar_con_def by (simp only: cs ap sum.case)
  also have "mascara df (map ?g (filas df)) = df\<lparr>filas := filter ?g (filas df)\<rparr>"
    by (simp only: mascara_def mascara_map)
  finally show ?thesis by (simp add: str_in_sublist)
qed

lemma palabras_clave_minusculas: "\<forall>p\<in>set PALABRAS_CLAVE. \<forall>c\<in>set p. \<not> isupper c"
  by (simp add: PALABRAS_CLAVE_def isupper_def)

lemma palabras_clave_lower: "\<forall>p\<in>set PALABRAS_CLAVE. lower p = p"
  using palabras_clave_minusculas lower_idem by blast

text \<open>
  C5: on a table of records, that is one with exactly one column \<open>clase_actividad\<close> whose
  cells are all strings, \<open>filtrar_por_giro\<close> returns exactly the rows whose text, lower-cased,
  contains one of the configured keywords as a substring. Every configured keyword is its
  own lower-case form, so that is the match irrespective of case. With an empty keyword
  list no row passes.
\<close>

theorem C5_filtrar_por_giro:
  assumes "count_list (columns df) ''clase_actividad'' = 1"
      and "\<forall>fila\<in>set (filas df). \<exists>s. celda (columns df) fila ''clase_actividad'' = Str s"
  shows "filtrar_por_giro df =
           Inr (df\<lparr>filas := filter (\<lambda>fila. \<exists>p\<in>set PALABRAS_CLAVE.
                       sublist p (lower (texto (celda (columns df) fila ''clase_actividad''))))
                     (filas df)\<rparr>)
         \<and> filtrar_por_giro df =
           Inr (df\<lparr>filas := filter (\<lambda>fila. \<exists>p\<in>set PALABRAS_CLAVE.
                       sublist (lower p) (lower (texto (celda (columns df) fila ''clase_actividad''))))
                     (filas df)\<rparr>)
         \<and> filtrar_con [] df = Inr (df\<lparr>filas := []\<rparr>)"
proof -
  have a: "filtrar_por_giro df =
           Inr (df\<lparr>filas := filter (\<lambda>fila. \<exists>p\<in>set PALABRAS_CLAVE.
                       sublist p (lower (texto (celda (columns df) fila ''clase_actividad''))))
                     (filas df)\<rparr>)"
    unfolding filtrar_por_giro_def by (rule filtrar_con_ok [OF assms])
  have "(\<lambda>fila. \<exists>p\<in>set PALABRAS_CLAVE.
            sublist p (lower (texto (celda (columns df) fila ''clase_actividad''))))
      = (\<lambda>fila. \<exists>p\<in>set PALABRAS_CLAVE.
            sublist (lower p) (lower (texto (celda (columns df) fila ''clase_actividad''))))"
    using palabras_clave_lower by auto
  with a have b: "filtrar_por_giro df =
           Inr (df\<lparr>filas := filter (\<lambda>fila. \<exists>p\<in>set PALABRAS_CLAVE.
                       sublist (lower p) (lower (texto (celda (columns df) fila ''clase_actividad''))))
                     (filas df)\<rparr>)"
    by simp
  have c: "filtrar_con [] df = Inr (df\<lparr>filas := []\<rparr>)"
    using filtrar_con_ok [OF assms, of "[]"] by simp
  from a b c show ?thesis by blast
qed

lemma lower_ejemplos:
  "lower (''Industria Farmac'' @ [CHR 0xE9] @ ''utica de M'' @ [CHR 0xE9] @ ''xico'')
     = ''industria farmac'' @ [CHR 0xE9] @ ''utica de m'' @ [CHR 0xE9] @ ''xico''"
  "lower ''Comercio al por menor'' = ''comercio al por menor''"
  "lower ''LABORATORIOS de pruebas'' = ''laboratorios de pruebas''"
  by (simp_all add: lower_def lower_char_def isupper_def char_of_eq_iff)

theorem C5_filtrar_por_giro_witness:
  "filtrar_por_giro df_giros =
     Inr (df_giros\<lparr>filas :=
       [[Str ''1'', Str (''Industria Farmac'' @ [CHR 0xE9] @ ''utica de M'' @ [CHR 0xE9] @ ''xico'')],
        [Str ''3'', Str ''LABORATORIOS de pruebas'']]\<rparr>)
   \<and> filtrar_con [] df_giros = Inr (df_giros\<lparr>filas := []\<rparr>)"
proof -
  have col: "count_list (columns df_giros) ''clase_actividad'' = 1"
    by (simp add: df_giros_def)
  have str: "\<forall>fila\<in>set (filas df_giros). \<exists>s. celda (columns df_giros) fila ''clase_actividad'' = Str s"
    by (simp add: df_giros_def celda_def)
  have f: "filter (\<lambda>fila. \<exists>p\<in>set PALABRAS_CLAVE.
                       sublist p (lower (texto (celda (columns df_giros) fila ''clase_actividad''))))
                     (filas df_giros)
         = [[Str ''1'', Str (''Industria Farmac'' @ [CHR 0xE9] @ ''utica de M'' @ [CHR 0xE9] @ ''xico'')],
            [Str ''3'', Str ''LABORATORIOS de pruebas'']]"
    unfolding str_in_sublist [symmetric]
    by (simp add: df_giros_def celda_def PALABRAS_CLAVE_def lower_ejemplos [simplified])
  from C5_filtrar_por_giro [OF col str] show ?thesis by (simp only: f)
qed


lemma filter_snd_all_False:
  "\<forall>b\<in>set bs. \<not> b \<Longrightarrow> filter snd (zip xs bs) = []"
  by (auto simp add: filter_empty_conv dest: set_zip_rightD)

lemma any_in_upper:
  assumes "\<forall>p\<in>set palabras. \<exists>c\<in>set p. isupper c"
      and "any_in palabras (str_lower x) = Inr b"
  shows "\<not> b"
proof (cases x)
  case NaN
  with assms(2) show ?thesis by (cases palabras) auto
next
  case (Str s)
  with assms(2) have "b = (\<exists>p\<in>set palabras. str_in p (lower s))" by (simp add: any_in_Str)
  with assms(1) upper_not_in_lower show ?thesis by blast
qed

lemma apply_serie_upper:
  assumes "\<forall>p\<in>set palabras. \<exists>c\<in>set p. isupper c"
      and "apply_serie (any_in palabras) (map str_lower serie) = Inr bs"
  shows "\<forall>b\<in>set bs. \<not> b"
  using assms(2)
proof (induction serie arbitrary: bs)
  case Nil
  then show ?case by simp
next
  case (Cons x xs)
  from Cons.prems obtain b bs' where
    b: "any_in palabras (str_lower x) = Inr b"
    and bs': "apply_serie (any_in palabras) (map str_lower xs) = Inr bs'"
    and bs: "bs = b # bs'"
    by (auto split: sum.splits)
  from any_in_upper [OF assms(1) b] Cons.IH [OF bs'] bs show ?case by simp
qed

lemma filtrar_con_upper:
  assumes "\<forall>p\<in>set palabras. \<exists>c\<in>set p. isupper c"
      and "filtrar_con palabras df = Inr df'"
  shows "filas df' = []"
proof -
  from assms(2) obtain serie filtro where
    "apply_serie (any_in palabras) (map str_lower serie) = Inr filtro"
    and df': "df' = mascara df filtro"
    by (auto simp add: filtrar_con_def split: sum.splits)
  from apply_serie_upper [OF assms(1) this(1)] have "\<forall>b\<in>set filtro. \<not> b" .
  from filter_snd_all_False [OF this] df' show ?thesis by (simp add: mascara_def)
qed

text \<open>
  C10: only the text of the record is lower-cased, the keyword is compared as it is. So a
  keyword with an uppercase character occurs in no lower-cased text, and a filter whose
  keywords all have one keeps no row. The configured keywords have none: each is already
  in lower case, which is why the match of \<open>filtrar_por_giro\<close> is case-insensitive.
\<close>

theorem C10_palabra_con_mayuscula:
  "((\<exists>c\<in>set palabra. isupper c) \<longrightarrow> \<not> str_in palabra (lower s))
   \<and> ((\<forall>p\<in>set palabras. \<exists>c\<in>set p. isupper c) \<and> filtrar_con palabras df = Inr df'
        \<longrightarrow> filas df' = [])
   \<and> (\<forall>p\<in>set PALABRAS_CLAVE. \<forall>c\<in>set p. \<not> isupper c)
   \<and> (\<forall>p\<in>set PALABRAS_CLAVE. lower p = p)"
  using upper_not_in_lower [of palabra s] filtrar_con_upper [of palabras df df']
        palabras_clave_minusculas palabras_clave_lower
  by blast

theorem C10_palabra_con_mayuscula_witness:
  "isupper (CHR ''L'')
   \<and> \<not> str_in ''Laboratorio'' (lower ''LABORATORIOS de pruebas'')
   \<and> str_in ''laboratorio'' (lower ''LABORATORIOS de pruebas'')
   \<and> filtrar_con [''Laboratorio''] df_giros = Inr (df_giros\<lparr>filas := []\<rparr>)
   \<and> filas (df_giros\<lparr>filas := []\<rparr>) = []"
proof -
  have up: "isupper (CHR ''L'')" by (simp add: isupper_def)
  then have ex: "\<exists>c\<in>set ''Laboratorio''. isupper c" by simp
  then have all: "\<forall>p\<in>set [''Laboratorio'']. \<exists>c\<in>set p. isupper c" by simp
  have col: "count_list (columns df_giros) ''clase_actividad'' = 1"
    by (simp add: df_giros_def)
  have str: "\<forall>fila\<in>set (filas df_giros). \<exists>s. celda (columns df_giros) fila ''clase_actividad'' = Str s"
    by (simp add: df_giros_def celda_def)
  from filtrar_con_ok [OF col str, of "[''Laboratorio'']"]
  obtain df' where f: "filtrar_con [''Laboratorio''] df_giros = Inr df'"
    and d: "df' = df_giros\<lparr>filas := filas df'\<rparr>"
    by simp
  have pos: "str_in ''laboratorio'' (lower ''LABORATORIOS de pruebas'')"
    by (simp add: lower_ejemplos [simplified])
  from C10_palabra_con_mayuscula [of "''Laboratorio''" "''LABORATORIOS de pruebas''"
         "[''Laboratorio'']" df_giros df']
  have "\<not> str_in ''Laboratorio'' (lower ''LABORATORIOS de pruebas'')" and "filas df' = []"
    using ex all f by blast+
  with up pos f d show ?thesis by simp
qed

section \<open>Orchestrator: properties\<close>


































lemma filtrar_sin_columna:
  "''clase_actividad'' \<notin> set (columns df) \<Longrightarrow>
     filtrar_por_giro df = Inl (KeyError ''clase_actividad'')"
  by (simp add: filtrar_por_giro_def filtrar_con_def columna_str_def)

lemma PALABRAS_CLAVE_no_vacia: "PALABRAS_CLAVE \<noteq> []"
  by (simp add: PALABRAS_CLAVE_def)

lemma filtrar_celda_NaN:
  assumes "''clase_actividad'' \<in> set (columns df)"
      and "\<exists>fila\<in>set (filas df). celda (columns df) fila ''clase_actividad'' = NaN"
  shows "\<exists>e. filtrar_por_giro df = Inl e"
proof (cases "count_list (columns df) ''clase_actividad'' > 1")
  case True
  with assms(1) show ?thesis
    by (simp add: filtrar_por_giro_def filtrar_con_def columna_str_def)
next
  case False
  let ?serie = "map (\<lambda>fila. celda (columns df) fila ''clase_actividad'') (filas df)"
  from False assms(1) have cs: "columna_str df ''clase_actividad'' = Inr ?serie"
    by (simp add: columna_str_def)
  from assms(2) have "NaN \<in> set ?serie" by force
  from apply_serie_NaN [OF this PALABRAS_CLAVE_no_vacia]
  obtain e where "apply_serie (any_in PALABRAS_CLAVE) (map str_lower ?serie) = Inl e" by blast
  with cs show ?thesis by (simp add: filtrar_por_giro_def filtrar_con_def)
qed

lemma filtrar_Inr_bien_formado:
  assumes "filtrar_por_giro df = Inr df'"
  shows "''clase_actividad'' \<in> set (columns df)
         \<and> (\<forall>fila\<in>set (filas df). \<exists>s. celda (columns df) fila ''clase_actividad'' = Str s)"
proof -
  have mem: "''clase_actividad'' \<in> set (columns df)"
    using assms filtrar_sin_columna [of df] by auto
  have "\<exists>s. celda (columns df) fila ''clase_actividad'' = Str s" if "fila \<in> set (filas df)" for fila
  proof (cases "celda (columns df) fila ''clase_actividad''")
    case (Str s)
    then show ?thesis by simp
  next
    case NaN
    with that filtrar_celda_NaN [OF mem] assms show ?thesis by auto
  qed
  with mem show ?thesis by blast
qed

lemma recorrer_append:
  "recorrer get (xs @ ys) ms =
     (case recorrer get xs ms of
        None \<Rightarrow> None
      | Some (Some e, ms') \<Rightarrow> Some (Some e, ms')
      | Some (None, ms') \<Rightarrow> recorrer get ys ms')"
  by (induction xs arbitrary: ms) (auto split: option.splits)

lemma combinacion_filtro_falla:
  assumes "obtener_datos get entidad ''0'' estrato
             (salida ms @ [Imprime (''>>> Consultando entidad '' @ entidad @ '', estrato '' @ estrato)])
           = Some (datos, tr')"
      and "datos \<noteq> []"
      and "filtrar_por_giro (columnas_minusculas (DataFrame datos)) = Inl e"
  shows "combinacion get (entidad, estrato) ms = Some (Some e, ms\<lparr>salida := tr'\<rparr>)"
  using assms by (simp add: combinacion_def)

lemma main_con_filtro_falla:
  assumes prev: "recorrer get previos \<lparr>registros_filtrados = [], salida = eventos w\<rparr> = Some (None, ms)"
      and od: "obtener_datos get entidad ''0'' estrato
             (salida ms @ [Imprime (''>>> Consultando entidad '' @ entidad @ '', estrato '' @ estrato)])
           = Some (datos, tr')"
      and ne: "datos \<noteq> []"
      and fl: "filtrar_por_giro (columnas_minusculas (DataFrame datos)) = Inl e"
  shows "main_con (previos @ (entidad, estrato) # resto) get w = Some (Some e, w\<lparr>eventos := tr'\<rparr>)"
proof -
  have "recorrer get (previos @ (entidad, estrato) # resto) \<lparr>registros_filtrados = [], salida = eventos w\<rparr>
          = Some (Some e, ms\<lparr>salida := tr'\<rparr>)"
    by (simp add: recorrer_append prev combinacion_filtro_falla [OF od ne fl])
  then show ?thesis by (simp add: main_con_def)
qed

text \<open>
  C9: \<open>filtrar_por_giro\<close> raises \<open>KeyError\<close> when the table has no column
  \<open>clase_actividad\<close>, and raises when a cell of that column is not a string; it returns only
  on tables that have the column with strings in every row. \<open>main\<close> catches nothing:
  when the filter raises on the records of a combination, the run ends there with that
  exception, the remaining combinations unvisited and the files as they were.
\<close>

theorem C9_filtrar_parcial_y_aborta:
  "(''clase_actividad'' \<notin> set (columns df) \<longrightarrow>
       filtrar_por_giro df = Inl (KeyError ''clase_actividad''))
   \<and> (''clase_actividad'' \<in> set (columns df)
        \<and> (\<exists>fila\<in>set (filas df). celda (columns df) fila ''clase_actividad'' = NaN)
       \<longrightarrow> (\<exists>e. filtrar_por_giro df = Inl e))
   \<and> (filtrar_por_giro df = Inr df' \<longrightarrow>
         ''clase_actividad'' \<in> set (columns df)
         \<and> (\<forall>fila\<in>set (filas df). \<exists>s. celda (columns df) fila ''clase_actividad'' = Str s))
   \<and> (recorrer get previos \<lparr>registros_filtrados = [], salida = eventos w\<rparr> = Some (None, ms)
        \<and> obtener_datos get entidad ''0'' estrato
             (salida ms @ [Imprime (''>>> Consultando entidad '' @ entidad @ '', estrato '' @ estrato)])
           = Some (datos, tr')
        \<and> datos \<noteq> []
        \<and> filtrar_por_giro (columnas_minusculas (DataFrame datos)) = Inl e
       \<longrightarrow> main_con (previos @ (entidad, estrato) # resto) get w = Some (Some e, w\<lparr>eventos := tr'\<rparr>))"
  using filtrar_sin_columna [of df] filtrar_celda_NaN [of df] filtrar_Inr_bien_formado [of df df']
        main_con_filtro_falla [of get previos w ms entidad estrato datos tr' e resto]
  by blast

lemma pares_main:
  "List.product ENTIDADES ESTRATOS = [] @ (''01'', ''6'') # tl (List.product ENTIDADES ESTRATOS)"
  by (simp add: ENTIDADES_def ESTRATOS_def upt_conv_Cons zfill2_def str_nat.simps char_of_eq_iff)

lemma iteracion_corta:
  "get (url_de e m s st) = Datos datos \<Longrightarrow> datos \<noteq> [] \<Longrightarrow> length datos < BLOQUE \<Longrightarrow>
   iteracion get e m s st =
     Break (st\<lparr>total_acc := total_acc st @ datos, intentos_vacios := 0,
               traza := traza st @ [Peticion (url_de e m s st)]\<rparr>)"
  by (simp add: iteracion_def url_de_def Let_def)

lemma obtener_datos_una_pagina_corta:
  assumes "get (construir_url e m s 1 BLOQUE) = Datos datos" "datos \<noteq> []" "length datos < BLOQUE"
  shows "obtener_datos get e m s tr = Some (datos, tr @ [Peticion (construir_url e m s 1 BLOQUE)])"
proof -
  have u: "url_de e m s (estado_inicial tr) = construir_url e m s 1 BLOQUE"
    by (simp add: url_de_def estado_inicial_def)
  from assms(1) have g: "get (url_de e m s (estado_inicial tr)) = Datos datos"
    by (simp only: u)
  from bucle_Break [OF iteracion_corta [of get e m s "estado_inicial tr" datos, OF g assms(2,3)]]
  show ?thesis by (simp add: obtener_datos_def u) (simp add: estado_inicial_def)
qed

lemma filtrar_fuente_sin_clase:
  "filtrar_por_giro (columnas_minusculas (DataFrame [[(''Id'', Str ''1'')]]))
     = Inl (KeyError ''clase_actividad'')"
  by (rule filtrar_sin_columna)
     (simp add: columnas_minusculas_def DataFrame_def lower_def lower_char_def isupper_def char_of_eq_iff)

lemma obtener_fuente_sin_clase:
  "obtener_datos fuente_sin_clase e ''0'' s tr
     = Some ([[(''Id'', Str ''1'')]], tr @ [Peticion (construir_url e ''0'' s 1 BLOQUE)])"
  by (rule obtener_datos_una_pagina_corta) (simp_all add: fuente_sin_clase_def BLOQUE_def)


theorem C9_filtrar_parcial_y_aborta_witness:
  "filtrar_por_giro df_sin_clase = Inl (KeyError ''clase_actividad'')
   \<and> (\<exists>e. filtrar_por_giro df_clase_nula = Inl e)
   \<and> (\<exists>df'. filtrar_por_giro df_giros = Inr df')
   \<and> ''clase_actividad'' \<in> set (columns df_giros)
   \<and> main fuente_sin_clase mundo_vacio =
       Some (Some (KeyError ''clase_actividad''),
             mundo_vacio\<lparr>eventos :=
               [Imprime ''>>> Consultando entidad 01, estrato 6'',
                Peticion (construir_url ''01'' ''0'' ''6'' 1 BLOQUE)]\<rparr>)"
proof -
  have a: "filtrar_por_giro df_sin_clase = Inl (KeyError ''clase_actividad'')"
    using C9_filtrar_parcial_y_aborta [of df_sin_clase] by (simp add: df_sin_clase_def)
  have b: "\<exists>e. filtrar_por_giro df_clase_nula = Inl e"
    using C9_filtrar_parcial_y_aborta [of df_clase_nula]
    by (simp add: df_clase_nula_def celda_def)
  have col: "count_list (columns df_giros) ''clase_actividad'' = 1"
    by (simp add: df_giros_def)
  have str: "\<forall>fila\<in>set (filas df_giros). \<exists>s. celda (columns df_giros) fila ''clase_actividad'' = Str s"
    by (simp add: df_giros_def celda_def)
  from filtrar_con_ok [OF col str, of PALABRAS_CLAVE]
  obtain df' where c: "filtrar_por_giro df_giros = Inr df'"
    by (simp add: filtrar_por_giro_def)
  from C9_filtrar_parcial_y_aborta [of df_giros df'] c
  have d: "''clase_actividad'' \<in> set (columns df_giros)" by blast
  have r: "recorrer fuente_sin_clase [] \<lparr>registros_filtrados = [], salida = eventos mundo_vacio\<rparr>
             = Some (None, \<lparr>registros_filtrados = [], salida = []\<rparr>)"
    by (simp add: mundo_vacio_def)
  have od: "obtener_datos fuente_sin_clase ''01'' ''0'' ''6''
             (salida \<lparr>registros_filtrados = [], salida = []\<rparr>
                @ [Imprime (''>>> Consultando entidad '' @ ''01'' @ '', estrato '' @ ''6'')])
           = Some ([[(''Id'', Str ''1'')]],
                   [Imprime ''>>> Consultando entidad 01, estrato 6'',
                    Peticion (construir_url ''01'' ''0'' ''6'' 1 BLOQUE)])"
    by (simp add: obtener_fuente_sin_clase)
  from C9_filtrar_parcial_y_aborta [of _ _ fuente_sin_clase "[]" mundo_vacio
         "\<lparr>registros_filtrados = [], salida = []\<rparr>" "''01''" "''6''" "[[(''Id'', Str ''1'')]]"
         "[Imprime ''>>> Consultando entidad 01, estrato 6'',
           Peticion (construir_url ''01'' ''0'' ''6'' 1 BLOQUE)]"
         "KeyError ''clase_actividad''" "tl (List.product ENTIDADES ESTRATOS)"]
       r od filtrar_fuente_sin_clase
  have "main_con ([] @ (''01'', ''6'') # tl (List.product ENTIDADES ESTRATOS)) fuente_sin_clase mundo_vacio
          = Some (Some (KeyError ''clase_actividad''),
                  mundo_vacio\<lparr>eventos :=
                    [Imprime ''>>> Consultando entidad 01, estrato 6'',
                     Peticion (construir_url ''01'' ''0'' ''6'' 1 BLOQUE)]\<rparr>)"
    by blast
  then have e: "main fuente_sin_clase mundo_vacio =
       Some (Some (KeyError ''clase_actividad''),
             mundo_vacio\<lparr>eventos :=
               [Imprime ''>>> Consultando entidad 01, estrato 6'',
                Peticion (construir_url ''01'' ''0'' ''6'' 1 BLOQUE)]\<rparr>)"
    unfolding main_def by (simp only: pares_main [symmetric])
  from a b c d e show ?thesis by blast
qed












lemma filtrar_registro_lab:
  "filtrar_por_giro (columnas_minusculas (DataFrame [registro_lab])) = Inr df_lab"
proof -
  have d: "columnas_minusculas (DataFrame [registro_lab]) = df_lab"
    by (simp add: columnas_minusculas_def DataFrame_def registro_lab_def df_lab_def valor_def
          lower_def lower_char_def isupper_def char_of_eq_iff)
  have col: "count_list (columns df_lab) ''clase_actividad'' = 1"
    by (simp add: df_lab_def)
  have str: "\<forall>fila\<in>set (filas df_lab). \<exists>s. celda (columns df_lab) fila ''clase_actividad'' = Str s"
    by (simp add: df_lab_def celda_def)
  have low: "lower ''Laboratorios de pruebas'' = ''laboratorios de pruebas''"
    by (simp add: lower_def lower_char_def isupper_def char_of_eq_iff)
  have "filtrar_con PALABRAS_CLAVE df_lab = Inr df_lab"
    unfolding filtrar_con_ok [OF col str] str_in_sublist [symmetric]
    by (simp add: df_lab_def celda_def PALABRAS_CLAVE_def low [simplified])
  then show ?thesis by (simp add: d filtrar_por_giro_def)
qed

lemma recorrer_lab:
  "recorrer fuente_laboratorio [(''09'', ''6'')]
     \<lparr>registros_filtrados = [], salida = eventos mundo_vacio\<rparr> = Some (None, ms_lab)"
proof -
  have od: "obtener_datos fuente_laboratorio ''09'' ''0'' ''6'' tr
              = Some ([registro_lab], tr @ [Peticion (construir_url ''09'' ''0'' ''6'' 1 BLOQUE)])" for tr
    by (rule obtener_datos_una_pagina_corta) (simp_all add: fuente_laboratorio_def BLOQUE_def)
  have ne: "\<not> df_empty df_lab" by (simp add: df_empty_def df_lab_def)
  show ?thesis
    by (simp add: combinacion_def od filtrar_registro_lab ne ms_lab_def mundo_vacio_def)
qed


text \<open>
  A run that an exception of a writer ends: the loops are over, the CSV file is written,
  the workbook is not, the JSON file is not reached.
\<close>

lemma main_con_falla_en_xlsx:
  "main_con [(''09'', ''6'')] fuente_laboratorio (mundo_vacio\<lparr>al_escribir := falla_xlsx\<rparr>) =
     Some (Some WriteError,
           \<lparr>csv = Tabla df_lab, xlsx = Ausente, json = Ausente,
            eventos = salida ms_lab @ [Escribe ARCHIVO_CSV, Escribe ARCHIVO_XLSX],
            al_escribir = falla_xlsx\<rparr>)"
proof -
  have c: "concat_df [df_lab] = df_lab"
    by (simp add: concat_df_def df_lab_def celda_def)
  have r: "recorrer fuente_laboratorio [(''09'', ''6'')]
             \<lparr>registros_filtrados = [],
              salida = eventos (mundo_vacio\<lparr>al_escribir := falla_xlsx\<rparr>)\<rparr> = Some (None, ms_lab)"
    using recorrer_lab by (simp add: mundo_vacio_def)
  show ?thesis
    unfolding main_con_def r
    by (simp add: ms_lab_def c guardar_todos_formatos_def exists_archivo_def mundo_vacio_def
          falla_xlsx_def ARCHIVO_CSV_def ARCHIVO_XLSX_def ARCHIVO_JSON_def)
qed




subsection \<open>A previous file that cannot be read\<close>

text \<open>
  C3, as the spec has it: a previous file that cannot be read is treated as empty
  history, with a warning. It is false: with an unreadable CSV in place the call ends
  with the read error and leaves the world as it was, nothing written and nothing
  printed.
\<close>

theorem C3_counterexample:
  "guardar_todos_formatos df_uno mundo_ilegible = (Some ReadError, mundo_ilegible)"
  by (simp add: guardar_todos_formatos_def exists_archivo_def mundo_ilegible_def)

text \<open>
  C3, amended: when the previous CSV exists and reading it fails, the read error leaves
  \<open>guardar_todos_formatos\<close> uncaught, before anything is written or printed; and \<open>main\<close>,
  which catches nothing either, ends with that error when it comes to persist what the
  loops collected.
\<close>

theorem C3_lectura_fallida_se_propaga:
  "(csv w = Ilegible \<longrightarrow> guardar_todos_formatos df w = (Some ReadError, w))
   \<and> (csv w = Ilegible
        \<and> recorrer get pares \<lparr>registros_filtrados = [], salida = eventos w\<rparr> = Some (None, ms)
        \<and> registros_filtrados ms \<noteq> []
       \<longrightarrow> main_con pares get w = Some (Some ReadError, w\<lparr>eventos := salida ms\<rparr>))"
  by (simp add: main_con_def guardar_todos_formatos_def exists_archivo_def)

theorem C3_lectura_fallida_se_propaga_witness:
  "csv mundo_ilegible = Ilegible
   \<and> guardar_todos_formatos df_uno mundo_ilegible = (Some ReadError, mundo_ilegible)
   \<and> recorrer fuente_laboratorio [(''09'', ''6'')]
        \<lparr>registros_filtrados = [], salida = eventos mundo_ilegible\<rparr> = Some (None, ms_lab)
   \<and> registros_filtrados ms_lab = [df_lab]
   \<and> main_con [(''09'', ''6'')] fuente_laboratorio mundo_ilegible
        = Some (Some ReadError, mundo_ilegible\<lparr>eventos := salida ms_lab\<rparr>)"
proof -
  have c: "csv mundo_ilegible = Ilegible" by (simp add: mundo_ilegible_def)
  have r: "recorrer fuente_laboratorio [(''09'', ''6'')]
             \<lparr>registros_filtrados = [], salida = eventos mundo_ilegible\<rparr> = Some (None, ms_lab)"
    using recorrer_lab by (simp add: mundo_ilegible_def mundo_vacio_def)
  have rl: "registros_filtrados ms_lab = [df_lab]" by (simp add: ms_lab_def)
  from C3_lectura_fallida_se_propaga [of mundo_ilegible df_uno] c
  have g: "guardar_todos_formatos df_uno mundo_ilegible = (Some ReadError, mundo_ilegible)"
    by blast
  from C3_lectura_fallida_se_propaga [of mundo_ilegible _ fuente_laboratorio "[(''09'', ''6'')]" ms_lab]
       c r rl
  have m: "main_con [(''09'', ''6'')] fuente_laboratorio mundo_ilegible
             = Some (Some ReadError, mundo_ilegible\<lparr>eventos := salida ms_lab\<rparr>)"
    by simp
  from c g r rl m show ?thesis by simp
qed

end
